theory Spec2Isabelle
  imports Complex_Main
begin

section \<open>BeamCalc: the simply supported beam evaluator of src/app/beam/BeamCalc.tsx\<close>

text \<open>
  This theory embeds the function \<open>compute\<close> of \<open>src/app/beam/BeamCalc.tsx\<close> (lines 65-132)
  together with the constants of lines 36-46 and the two interfaces \<open>Inputs\<close>
  (lines 17-25) and \<open>Results\<close> (lines 58-63).

  A JavaScript \<open>number\<close> is modelled by the type \<open>jsnum\<close>: a real number, one of the
  two infinities, or NaN (the single zero \<open>Fin 0\<close> stands for both \<open>+0\<close> and \<open>-0\<close>).
  The code is read at two levels.

  \<^item> In exact arithmetic (\<open>jmul\<close>, \<open>jdiv\<close>, \<open>Math_pow\<close>, and \<open>compute\<close> built on them) a
    finite product, quotient or power is the real one: no rounding, no overflow and no
    underflow. What is proved of \<open>compute\<close> is a statement about the formulas the code
    evaluates, not about the last bits of a double.
  \<^item> In binary64 (\<open>fl\<close>, \<open>fmul\<close>, \<open>fdiv\<close>) a finite product or quotient is the exact one
    rounded to the nearest double, ties to even, with gradual underflow and overflow to
    an infinity, as IEEE 754 and ECMAScript define \<open>*\<close> and \<open>/\<close>. The lines of \<open>compute\<close>
    that use these two operators only (the span and load conversions and the reaction)
    are evaluated a second time at this level. \<open>Math.pow\<close> is left out of it: ECMAScript
    leaves its result implementation-approximated.
\<close>

subsection \<open>JavaScript numbers\<close>

datatype jsnum = NaN | PInf | NInf | Fin real

text \<open>\<open>!x\<close> on a number: true exactly for \<open>0\<close>, \<open>-0\<close> and \<open>NaN\<close>.\<close>

fun falsy :: "jsnum \<Rightarrow> bool" where
  "falsy NaN = True"
| "falsy (Fin a) = (a = 0)"
| "falsy PInf = False"
| "falsy NInf = False"

text \<open>\<open>x * y\<close>: NaN is contagious, and an infinity times zero is NaN.\<close>

fun jmul :: "jsnum \<Rightarrow> jsnum \<Rightarrow> jsnum" where
  "jmul NaN y = NaN"
| "jmul x NaN = NaN"
| "jmul (Fin a) (Fin b) = Fin (a * b)"
| "jmul (Fin a) PInf = (if a = 0 then NaN else if 0 < a then PInf else NInf)"
| "jmul (Fin a) NInf = (if a = 0 then NaN else if 0 < a then NInf else PInf)"
| "jmul PInf (Fin b) = (if b = 0 then NaN else if 0 < b then PInf else NInf)"
| "jmul NInf (Fin b) = (if b = 0 then NaN else if 0 < b then NInf else PInf)"
| "jmul PInf PInf = PInf"
| "jmul PInf NInf = NInf"
| "jmul NInf PInf = NInf"
| "jmul NInf NInf = PInf"

text \<open>
  \<open>x / y\<close>: NaN is contagious; an infinity over an infinity and zero over zero are NaN; a
  finite value over an infinity is zero; a nonzero value over zero is an infinity (with
  the sign of the dividend, the zero of the model being read as \<open>+0\<close>).
\<close>

fun jdiv :: "jsnum \<Rightarrow> jsnum \<Rightarrow> jsnum" where
  "jdiv NaN y = NaN"
| "jdiv x NaN = NaN"
| "jdiv (Fin a) (Fin b) =
     (if b = 0 then (if a = 0 then NaN else if 0 < a then PInf else NInf)
      else Fin (a / b))"
| "jdiv (Fin a) PInf = Fin 0"
| "jdiv (Fin a) NInf = Fin 0"
| "jdiv PInf (Fin b) = (if 0 \<le> b then PInf else NInf)"
| "jdiv NInf (Fin b) = (if 0 \<le> b then NInf else PInf)"
| "jdiv PInf PInf = NaN"
| "jdiv PInf NInf = NaN"
| "jdiv NInf PInf = NaN"
| "jdiv NInf NInf = NaN"

text \<open>
  \<open>Math.pow(x, n)\<close> for a natural-number exponent, the only use the source makes of it
  (exponents 2, 3 and 4): \<open>Math.pow(x, 0)\<close> is 1 for every \<open>x\<close>, NaN included.
\<close>

fun Math_pow :: "jsnum \<Rightarrow> nat \<Rightarrow> jsnum" where
  "Math_pow x 0 = Fin 1"
| "Math_pow NaN n = NaN"
| "Math_pow (Fin a) n = Fin (a ^ n)"
| "Math_pow PInf n = PInf"
| "Math_pow NInf n = (if even n then PInf else NInf)"

subsection \<open>Binary64 rounding\<close>








subsection \<open>Types (lines 13-25 and 58-63)\<close>

datatype Units = US | Metric

datatype LoadType = UDL | Point_midspan

record Inputs =
  units :: Units
  span :: jsnum
  E :: jsnum
  I :: jsnum
  loadType :: LoadType
  w :: jsnum
  P :: jsnum

record Results =
  R :: jsnum
  Vmax :: jsnum
  Mmax :: jsnum
  deflMax :: jsnum

subsection \<open>Unit helpers (lines 36-46)\<close>

definition IN_TO_M :: jsnum where
  "IN_TO_M = Fin 0.0254"

definition MM_TO_M :: jsnum where
  "MM_TO_M = Fin 0.001"

definition KIP_TO_KN :: jsnum where
  "KIP_TO_KN = Fin 4.4482216153"

text \<open>Line 39: declared by the source, and never read by \<open>compute\<close>.\<close>

definition KSI_TO_GPA :: jsnum where
  "KSI_TO_GPA = jdiv (Fin 6.89475729) (Fin 1000)"

definition KSI_TO_GPA_CORRECT :: jsnum where
  "KSI_TO_GPA_CORRECT = Fin 0.006894757293168361"

text \<open>Lines 44-46, "for display back": \<open>compute\<close> reads the last of the three only.\<close>

definition KN_TO_KIP :: jsnum where
  "KN_TO_KIP = jdiv (Fin 1) KIP_TO_KN"

definition M_TO_IN :: jsnum where
  "M_TO_IN = Fin 39.3700787402"

definition M_TO_MM :: jsnum where
  "M_TO_MM = Fin 1000"

subsection \<open>The evaluator (lines 65-132)\<close>

text \<open>The completeness check of line 67: the condition under which \<open>compute\<close> returns null.\<close>

definition incomplete :: "Inputs \<Rightarrow> bool" where
  "incomplete inputs \<longleftrightarrow>
     falsy (span inputs) \<or> falsy (E inputs) \<or> falsy (I inputs) \<or>
     (if loadType inputs = UDL then falsy (w inputs) else falsy (P inputs))"

text \<open>
  The five local variables of lines 70-74, as they stand after the unit conversion of
  lines 76-103. Each starts at 0 and is assigned in the branch that the unit system and
  the load type select, so the load variable of the inactive load type stays 0.
\<close>

record Internal =
  L_m :: jsnum
  E_GPa :: jsnum
  I_m4 :: jsnum
  w_kN_per_m :: jsnum
  P_kN :: jsnum

definition normalize :: "Inputs \<Rightarrow> Internal" where
  "normalize inputs =
     (if units inputs = US then
        (let IN4_TO_M4 = Math_pow IN_TO_M 4 in
         \<lparr>L_m = jmul (span inputs) IN_TO_M,
          E_GPa = jmul (E inputs) KSI_TO_GPA_CORRECT,
          I_m4 = jmul (I inputs) IN4_TO_M4,
          w_kN_per_m =
            (if loadType inputs = UDL then jdiv (jmul (w inputs) KIP_TO_KN) IN_TO_M
             else Fin 0),
          P_kN = (if loadType inputs = UDL then Fin 0 else jmul (P inputs) KIP_TO_KN)\<rparr>)
      else
        (let MM4_TO_M4 = Math_pow MM_TO_M 4 in
         \<lparr>L_m = jmul (span inputs) MM_TO_M,
          E_GPa = E inputs,
          I_m4 = jmul (I inputs) MM4_TO_M4,
          w_kN_per_m = (if loadType inputs = UDL then jdiv (w inputs) MM_TO_M else Fin 0),
          P_kN = (if loadType inputs = UDL then Fin 0 else P inputs)\<rparr>))"

text \<open>Line 105.\<close>

definition E_kN_per_m2 :: "Internal \<Rightarrow> jsnum" where
  "E_kN_per_m2 n = jmul (E_GPa n) (Fin 1000000)"

text \<open>
  Lines 107-131: the closed-form formulas on the converted quantities, and the deflection
  brought from metres to millimetres.
\<close>

definition solve :: "LoadType \<Rightarrow> Internal \<Rightarrow> Results" where
  "solve lt n =
     (if lt = UDL then
        (let R_kN = jdiv (jmul (w_kN_per_m n) (L_m n)) (Fin 2);
             Vmax_kN = R_kN;
             Mmax_kN_m = jdiv (jmul (w_kN_per_m n) (Math_pow (L_m n) 2)) (Fin 8);
             defl_m = jdiv (jmul (jmul (Fin 5) (w_kN_per_m n)) (Math_pow (L_m n) 4))
                           (jmul (jmul (Fin 384) (E_kN_per_m2 n)) (I_m4 n));
             defl_mm = jmul defl_m M_TO_MM
         in \<lparr>R = R_kN, Vmax = Vmax_kN, Mmax = Mmax_kN_m, deflMax = defl_mm\<rparr>)
      else
        (let R_kN = jdiv (P_kN n) (Fin 2);
             Vmax_kN = R_kN;
             Mmax_kN_m = jdiv (jmul (P_kN n) (L_m n)) (Fin 4);
             defl_m = jdiv (jmul (P_kN n) (Math_pow (L_m n) 3))
                           (jmul (jmul (Fin 48) (E_kN_per_m2 n)) (I_m4 n));
             defl_mm = jmul defl_m M_TO_MM
         in \<lparr>R = R_kN, Vmax = Vmax_kN, Mmax = Mmax_kN_m, deflMax = defl_mm\<rparr>))"

text \<open>\<open>compute\<close>: null (\<open>None\<close>) when the check of line 67 fails, the result record otherwise.\<close>

definition compute :: "Inputs \<Rightarrow> Results option" where
  "compute inputs =
     (if incomplete inputs then None
      else Some (solve (loadType inputs) (normalize inputs)))"

subsection \<open>The reaction in binary64\<close>









subsection \<open>The formulas of the specification\<close>

text \<open>
  Section 4.2 of the specification, written here as the specification words it (squares
  and higher powers as products, the factor 1000 taking metres to millimetres), to be
  compared with what \<open>compute\<close> evaluates. The arguments are the load, the span, the
  modulus and the second moment of area in the internal units.
\<close>

definition spec_distributed :: "jsnum \<Rightarrow> jsnum \<Rightarrow> jsnum \<Rightarrow> jsnum \<Rightarrow> Results" where
  "spec_distributed wd L Eq Iq =
     \<lparr>R = jdiv (jmul wd L) (Fin 2),
      Vmax = jdiv (jmul wd L) (Fin 2),
      Mmax = jdiv (jmul wd (jmul L L)) (Fin 8),
      deflMax = jmul (jdiv (jmul (jmul (Fin 5) wd) (jmul (jmul (jmul L L) L) L))
                           (jmul (jmul (Fin 384) Eq) Iq)) (Fin 1000)\<rparr>"

definition spec_midspan_point :: "jsnum \<Rightarrow> jsnum \<Rightarrow> jsnum \<Rightarrow> jsnum \<Rightarrow> Results" where
  "spec_midspan_point Pk L Eq Iq =
     \<lparr>R = jdiv Pk (Fin 2),
      Vmax = jdiv Pk (Fin 2),
      Mmax = jdiv (jmul Pk L) (Fin 4),
      deflMax = jmul (jdiv (jmul Pk (jmul (jmul L L) L))
                           (jmul (jmul (Fin 48) Eq) Iq)) (Fin 1000)\<rparr>"

subsection \<open>Concrete inputs\<close>

text \<open>The initial form state of the page (lines 136-144).\<close>

definition default_inputs :: Inputs where
  "default_inputs =
     \<lparr>units = US, span = Fin 120, E = Fin 29000, I = Fin 200, loadType = UDL,
      w = Fin 0.001, P = Fin 10\<rparr>"

text \<open>A metric beam of 3 m under a midspan point load of 10 kN, no distributed load.\<close>

definition metric_point_inputs :: Inputs where
  "metric_point_inputs =
     \<lparr>units = Metric, span = Fin 3000, E = Fin 200, I = Fin 83330000,
      loadType = Point_midspan, w = Fin 0, P = Fin 10\<rparr>"

text \<open>The same metric beam with the point load pointing the other way.\<close>

definition negative_load_inputs :: Inputs where
  "negative_load_inputs =
     \<lparr>units = Metric, span = Fin 3000, E = Fin 200, I = Fin 83330000,
      loadType = Point_midspan, w = Fin 0, P = Fin (- 10)\<rparr>"

subsection \<open>The same beam in the other unit system\<close>




subsection \<open>Reading an approximate value\<close>

text \<open>\<open>approx x v tol\<close>: \<open>x\<close> is a finite number no further than \<open>tol\<close> from \<open>v\<close>.\<close>

definition approx :: "jsnum \<Rightarrow> real \<Rightarrow> real \<Rightarrow> bool" where
  "approx x v tol =
     (case x of Fin a \<Rightarrow> \<bar>a - v\<bar> \<le> tol | NaN \<Rightarrow> False | PInf \<Rightarrow> False | NInf \<Rightarrow> False)"


section \<open>Properties\<close>

subsection \<open>Arithmetic of JavaScript numbers\<close>

lemma Math_pow_pos:
  "0 < n \<Longrightarrow> Math_pow x n =
     (case x of NaN \<Rightarrow> NaN | PInf \<Rightarrow> PInf
      | NInf \<Rightarrow> (if even n then PInf else NInf) | Fin a \<Rightarrow> Fin (a ^ n))"
  by (cases n; cases x) simp_all

lemma Math_pow_2: "Math_pow x 2 = jmul x x"
  by (cases x) (simp_all add: Math_pow_pos power2_eq_square)

lemma Math_pow_3: "Math_pow x 3 = jmul (jmul x x) x"
  by (cases x) (simp_all add: Math_pow_pos power3_eq_cube)

lemma Math_pow_4: "Math_pow x 4 = jmul (jmul (jmul x x) x) x"
  by (cases x) (simp_all add: Math_pow_pos power4_eq_xxxx)

lemma Math_pow_Fin: "Math_pow (Fin a) n = Fin (a ^ n)"
  by (cases n) simp_all




lemma falsy_iff: "falsy x \<longleftrightarrow> x = Fin 0 \<or> x = NaN"
  by (cases x) auto

subsection \<open>Evaluating the rounding\<close>










































subsection \<open>The evaluator on the concrete inputs\<close>

lemma compute_default_inputs:
  "compute default_inputs =
     Some \<lparr>R = Fin (133446648459 / 500000000000), Vmax = Fin (133446648459 / 500000000000),
           Mmax = Fin (50843173062879 / 250000000000000),
           deflMax = Fin (300254959032750000 / 25393391110739073563)\<rparr>"
  by (simp add: default_inputs_def compute_def incomplete_def solve_def normalize_def
      E_kN_per_m2_def IN_TO_M_def KIP_TO_KN_def KSI_TO_GPA_CORRECT_def M_TO_MM_def Let_def
      Math_pow_Fin power4_eq_xxxx power2_eq_square)

lemma compute_metric_point_inputs:
  "compute metric_point_inputs =
     Some \<lparr>R = Fin 5, Vmax = Fin 5, Mmax = Fin (15 / 2), deflMax = Fin (5625 / 16666)\<rparr>"
  by (simp add: metric_point_inputs_def compute_def incomplete_def solve_def normalize_def
      E_kN_per_m2_def MM_TO_M_def M_TO_MM_def Let_def Math_pow_Fin power4_eq_xxxx
      power3_eq_cube)


lemma metric_point_inputs_complete:
  "units metric_point_inputs = Metric \<and> loadType metric_point_inputs = Point_midspan
   \<and> w metric_point_inputs = Fin 0
   \<and> \<not> falsy (span metric_point_inputs) \<and> \<not> falsy (E metric_point_inputs)
   \<and> \<not> falsy (I metric_point_inputs) \<and> \<not> falsy (P metric_point_inputs)"
  by (simp add: metric_point_inputs_def)

subsection \<open>The two formula sets\<close>

text \<open>
  C1. Whenever span, E, I and the distributed magnitude w are all truthy and the load type
  is the distributed one, \<open>compute\<close> returns a result, and on the converted quantities
  (w in kN/m, L in m, E in kN per square metre, I in metres to the fourth) it is:
  reaction w L / 2, peak shear the same value as the reaction, peak moment w L L / 8, and
  largest deflection 5 w L L L L / (384 E I) times 1000, in millimetres.
\<close>

theorem compute_distributed:
  assumes "\<not> falsy (span i)" and "\<not> falsy (E i)" and "\<not> falsy (I i)" and "\<not> falsy (w i)"
    and "loadType i = UDL"
  shows "compute i = Some (spec_distributed (w_kN_per_m (normalize i)) (L_m (normalize i))
            (E_kN_per_m2 (normalize i)) (I_m4 (normalize i)))
         \<and> Vmax (the (compute i)) = R (the (compute i))"
  using assms
  by (simp add: compute_def incomplete_def solve_def spec_distributed_def Let_def
      Math_pow_2 Math_pow_4 M_TO_MM_def)

theorem compute_distributed_witness:
  "\<not> falsy (span default_inputs) \<and> \<not> falsy (E default_inputs) \<and> \<not> falsy (I default_inputs)
   \<and> \<not> falsy (w default_inputs) \<and> loadType default_inputs = UDL
   \<and> compute default_inputs =
       Some \<lparr>R = Fin (133446648459 / 500000000000), Vmax = Fin (133446648459 / 500000000000),
             Mmax = Fin (50843173062879 / 250000000000000),
             deflMax = Fin (300254959032750000 / 25393391110739073563)\<rparr>"
  using compute_distributed [of default_inputs]
  by (simp add: default_inputs_def spec_distributed_def normalize_def E_kN_per_m2_def
      IN_TO_M_def KIP_TO_KN_def KSI_TO_GPA_CORRECT_def Let_def Math_pow_Fin power4_eq_xxxx)

text \<open>
  C2. Whenever span, E, I and the point magnitude P are all truthy and the load type is the
  midspan point load, \<open>compute\<close> returns a result, and on the converted quantities (P in
  kN, L in m, E in kN per square metre, I in metres to the fourth) it is: reaction P / 2,
  peak shear the same value as the reaction, peak moment P L / 4, and largest deflection
  P L L L / (48 E I) times 1000, the metres turned into millimetres before the result is
  built.
\<close>

theorem compute_midspan_point:
  assumes "\<not> falsy (span i)" and "\<not> falsy (E i)" and "\<not> falsy (I i)" and "\<not> falsy (P i)"
    and "loadType i = Point_midspan"
  shows "compute i = Some (spec_midspan_point (P_kN (normalize i)) (L_m (normalize i))
            (E_kN_per_m2 (normalize i)) (I_m4 (normalize i)))
         \<and> Vmax (the (compute i)) = R (the (compute i))"
  using assms
  by (simp add: compute_def incomplete_def solve_def spec_midspan_point_def Let_def
      Math_pow_3 M_TO_MM_def)

theorem compute_midspan_point_witness:
  "\<not> falsy (span metric_point_inputs) \<and> \<not> falsy (E metric_point_inputs)
   \<and> \<not> falsy (I metric_point_inputs) \<and> \<not> falsy (P metric_point_inputs)
   \<and> loadType metric_point_inputs = Point_midspan
   \<and> compute metric_point_inputs =
       Some \<lparr>R = Fin 5, Vmax = Fin 5, Mmax = Fin (15 / 2), deflMax = Fin (5625 / 16666)\<rparr>"
  using compute_midspan_point [of metric_point_inputs]
  by (simp add: metric_point_inputs_def spec_midspan_point_def normalize_def E_kN_per_m2_def
      MM_TO_M_def Let_def Math_pow_Fin power4_eq_xxxx)

subsection \<open>The completeness check\<close>

text \<open>
  C3. When span, E, I or the magnitude of the active load type (w for the distributed load,
  P for the midspan point load) is zero or NaN (what an absent form field is parsed to),
  \<open>compute\<close> returns null, not a result record; in particular a zero span gives null
  whatever the other fields and the load type are.
\<close>

theorem compute_incomplete_null:
  "(falsy (span i) \<or> falsy (E i) \<or> falsy (I i) \<or> (loadType i = UDL \<and> falsy (w i))
      \<or> (loadType i = Point_midspan \<and> falsy (P i)) \<longrightarrow> compute i = None)
   \<and> compute (i\<lparr>span := Fin 0\<rparr>) = None"
  by (auto simp: compute_def incomplete_def)

theorem compute_incomplete_null_witness:
  "falsy (E (default_inputs\<lparr>E := Fin 0\<rparr>)) \<and> compute (default_inputs\<lparr>E := Fin 0\<rparr>)
      = None
   \<and> compute (default_inputs\<lparr>span := Fin 0\<rparr>) = None
   \<and> compute (metric_point_inputs\<lparr>span := Fin 0\<rparr>) = None"
  using compute_incomplete_null [of "default_inputs\<lparr>E := Fin 0\<rparr>"]
    compute_incomplete_null [of default_inputs] compute_incomplete_null [of metric_point_inputs]
  by simp

text \<open>
  C9. A NaN in span, E, I or the magnitude of the active load type makes \<open>compute\<close> return
  null: no NaN input of a required field reaches a result record.
\<close>

theorem compute_NaN_null:
  "span i = NaN \<or> E i = NaN \<or> I i = NaN \<or> (if loadType i = UDL then w i else P i) = NaN
   \<Longrightarrow> compute i = None"
  by (auto simp: compute_def incomplete_def split: if_splits)

theorem compute_NaN_null_witness:
  "w (default_inputs\<lparr>w := NaN\<rparr>) = NaN \<and> loadType (default_inputs\<lparr>w := NaN\<rparr>)
      = UDL
   \<and> compute (default_inputs\<lparr>w := NaN\<rparr>) = None"
  using compute_NaN_null [of "default_inputs\<lparr>w := NaN\<rparr>"]
  by (simp add: default_inputs_def)

text \<open>
  C10. \<open>compute\<close> returns null exactly when span, E, I or the magnitude of the active load
  type is zero or NaN, and the sign of a field is never looked at: an input whose required
  fields are all truthy yields a result record, negative values included, as the metric
  beam under a point load of -10 kN shows (every field of its result is negative).
\<close>

theorem compute_null_iff:
  "(compute i = None \<longleftrightarrow>
      span i = Fin 0 \<or> span i = NaN \<or> E i = Fin 0 \<or> E i = NaN \<or> I i = Fin 0 \<or> I i = NaN
      \<or> (if loadType i = UDL then w i else P i) = Fin 0
      \<or> (if loadType i = UDL then w i else P i) = NaN)
   \<and> compute negative_load_inputs =
       Some \<lparr>R = Fin (- 5), Vmax = Fin (- 5), Mmax = Fin (- (15 / 2)),
             deflMax = Fin (- (5625 / 16666))\<rparr>"
proof
  show "compute i = None \<longleftrightarrow>
      span i = Fin 0 \<or> span i = NaN \<or> E i = Fin 0 \<or> E i = NaN \<or> I i = Fin 0 \<or> I i = NaN
      \<or> (if loadType i = UDL then w i else P i) = Fin 0
      \<or> (if loadType i = UDL then w i else P i) = NaN"
    by (auto simp: compute_def incomplete_def falsy_iff)
  show "compute negative_load_inputs =
       Some \<lparr>R = Fin (- 5), Vmax = Fin (- 5), Mmax = Fin (- (15 / 2)),
             deflMax = Fin (- (5625 / 16666))\<rparr>"
    by (simp add: negative_load_inputs_def compute_def incomplete_def solve_def normalize_def
        E_kN_per_m2_def MM_TO_M_def M_TO_MM_def Let_def Math_pow_Fin power4_eq_xxxx
        power3_eq_cube)
qed

theorem compute_null_iff_witness:
  "compute (negative_load_inputs\<lparr>span := Fin (- 3000)\<rparr>) \<noteq> None
   \<and> compute (negative_load_inputs\<lparr>I := NaN\<rparr>) = None
   \<and> compute (negative_load_inputs\<lparr>P := Fin 0\<rparr>) = None
   \<and> compute (negative_load_inputs\<lparr>span := PInf\<rparr>) \<noteq> None"
  using compute_null_iff [of "negative_load_inputs\<lparr>span := Fin (- 3000)\<rparr>"]
    compute_null_iff [of "negative_load_inputs\<lparr>I := NaN\<rparr>"]
    compute_null_iff [of "negative_load_inputs\<lparr>P := Fin 0\<rparr>"]
    compute_null_iff [of "negative_load_inputs\<lparr>span := PInf\<rparr>"]
  by (simp add: negative_load_inputs_def)

subsection \<open>Unit conversion\<close>







subsection \<open>What the outcome depends on\<close>

text \<open>
  C6. Two inputs that differ at most in the magnitude of the inactive load type (P under a
  distributed load, w under a midspan point load) have the same outcome, null or the same
  result record; in particular a zero w does not keep a midspan point load with truthy
  span, E, I and P from getting a result.
\<close>

theorem compute_inactive_magnitude:
  assumes "units i = units j" and "span i = span j" and "E i = E j" and "I i = I j"
    and "loadType i = loadType j"
    and "if loadType i = UDL then w i = w j else P i = P j"
  shows "compute i = compute j
         \<and> (loadType i = Point_midspan \<and> w i = Fin 0 \<and> \<not> falsy (span i) \<and> \<not> falsy (E i)
              \<and> \<not> falsy (I i) \<and> \<not> falsy (P i) \<longrightarrow> compute i \<noteq> None)"
  using assms
  by (auto simp: compute_def incomplete_def solve_def normalize_def E_kN_per_m2_def Let_def)

theorem compute_inactive_magnitude_witness:
  "compute metric_point_inputs = compute (metric_point_inputs\<lparr>w := Fin 7\<rparr>)
   \<and> loadType metric_point_inputs = Point_midspan \<and> w metric_point_inputs = Fin 0
   \<and> \<not> falsy (span metric_point_inputs) \<and> \<not> falsy (E metric_point_inputs)
   \<and> \<not> falsy (I metric_point_inputs) \<and> \<not> falsy (P metric_point_inputs)
   \<and> compute metric_point_inputs \<noteq> None"
proof -
  have "compute metric_point_inputs = compute (metric_point_inputs\<lparr>w := Fin 7\<rparr>)
      \<and> (loadType metric_point_inputs = Point_midspan \<and> w metric_point_inputs = Fin 0
           \<and> \<not> falsy (span metric_point_inputs) \<and> \<not> falsy (E metric_point_inputs)
           \<and> \<not> falsy (I metric_point_inputs) \<and> \<not> falsy (P metric_point_inputs)
           \<longrightarrow> compute metric_point_inputs \<noteq> None)"
    by (rule compute_inactive_magnitude) (simp_all add: metric_point_inputs_def)
  with metric_point_inputs_complete show ?thesis
    by blast
qed

subsection \<open>The initial form state\<close>

text \<open>
  C7, as the specification states it, fails: for the input US, span 120 in, E 29000 ksi,
  I 200 inches to the fourth, distributed load 0.001 kip/in, the reaction is not 0.6773 kN
  and the peak moment is not 10.16 kN m, neither to the digits shown nor within 0.4 kN and
  9.9 kN m of them.
\<close>

theorem default_inputs_not_spec_values:
  "compute default_inputs =
     Some \<lparr>R = Fin (133446648459 / 500000000000), Vmax = Fin (133446648459 / 500000000000),
           Mmax = Fin (50843173062879 / 250000000000000),
           deflMax = Fin (300254959032750000 / 25393391110739073563)\<rparr>
   \<and> \<not> approx (R (the (compute default_inputs))) 0.6773 0.00005
   \<and> \<not> approx (Mmax (the (compute default_inputs))) 10.16 0.005
   \<and> \<not> approx (R (the (compute default_inputs))) 0.6773 0.4
   \<and> \<not> approx (Mmax (the (compute default_inputs))) 10.16 9.9"
  by (simp add: compute_default_inputs approx_def)

text \<open>
  C7, amended. For that input \<open>compute\<close> returns a result whose reaction is 0.2669 kN and
  whose peak moment is 0.2034 kN m, to the four decimals shown, the values that follow
  from the conversion constants and the formulas w L / 2 and w L L / 8.
\<close>

theorem default_inputs_values:
  "compute default_inputs \<noteq> None
   \<and> approx (R (the (compute default_inputs))) 0.2669 0.00005
   \<and> approx (Mmax (the (compute default_inputs))) 0.2034 0.00005"
  by (simp add: compute_default_inputs approx_def)

end
